theory Spec2Isabelle
  imports Main
begin

section \<open>Exceptions\<close>

text \<open>
  The exception classes the program defines (\<open>AppError\<close>, \<open>APIConnectionError\<close>,
  \<open>DataParseError\<close>) and the built-in ones its \<open>except\<close> clauses name or that the
  library calls it makes can raise. An exception value is its class and a string: for
  \<open>URLError\<close> and \<open>HTTPError\<close> the string is \<open>str(e.reason)\<close>, for every other class
  it is \<open>str(e)\<close>; these are the only texts the program reads from an exception.
\<close>

datatype exn_class =
    AppError | APIConnectionError | DataParseError
  | OSError | URLError | HTTPError | FileExistsError | FileNotFoundError | PermissionError
  | ValueError | JSONDecodeError | UnicodeDecodeError
  | AttributeError | TypeError | OtherException

datatype exn = Exn exn_class string

text \<open>The direct base class; \<open>None\<close> stands for a direct subclass of \<open>Exception\<close>.\<close>

fun base_class :: "exn_class \<Rightarrow> exn_class option" where
  "base_class APIConnectionError = Some AppError"
| "base_class DataParseError = Some AppError"
| "base_class URLError = Some OSError"
| "base_class HTTPError = Some URLError"
| "base_class FileExistsError = Some OSError"
| "base_class FileNotFoundError = Some OSError"
| "base_class PermissionError = Some OSError"
| "base_class JSONDecodeError = Some ValueError"
| "base_class UnicodeDecodeError = Some ValueError"
| "base_class _ = None"

text \<open>\<open>isinstance\<close> on classes: the hierarchy is at most three deep.\<close>

definition is_a :: "exn_class \<Rightarrow> exn_class \<Rightarrow> bool" where
  "is_a k c =
     (k = c \<or> base_class k = Some c \<or>
      (case base_class k of None \<Rightarrow> False | Some b \<Rightarrow> base_class b = Some c))"

section \<open>Decoded JSON values\<close>

text \<open>
  What \<open>json.loads\<close> returns: \<open>None\<close>, \<open>bool\<close>, \<open>int\<close>, \<open>float\<close>, \<open>str\<close>, \<open>list\<close> and
  \<open>dict\<close>. A \<open>dict\<close> is the list of its items in insertion order, with distinct keys.
  A float is carried by its \<open>repr\<close>; the program never computes with one.
\<close>

datatype json =
    JNull | JBool bool | JInt int | JFloat string | JStr string
  | JArr "json list" | JObj "(string \<times> json) list"

fun type_name :: "json \<Rightarrow> string" where
  "type_name JNull = ''NoneType''"
| "type_name (JBool _) = ''bool''"
| "type_name (JInt _) = ''int''"
| "type_name (JFloat _) = ''float''"
| "type_name (JStr _) = ''str''"
| "type_name (JArr _) = ''list''"
| "type_name (JObj _) = ''dict''"

text \<open>A text between single quotes, as Python's messages show a type or attribute name.\<close>

definition squote :: "string \<Rightarrow> string" where
  "squote s = [CHR 0x27] @ s @ [CHR 0x27]"

text \<open>
  \<open>v.get(key, default)\<close>: only a \<open>dict\<close> has the method; on any other value the attribute
  lookup raises \<open>AttributeError\<close>.
\<close>

fun py_get :: "json \<Rightarrow> string \<Rightarrow> json \<Rightarrow> exn + json" where
  "py_get (JObj kvs) key dflt =
     Inr (case map_of kvs key of None \<Rightarrow> dflt | Some v \<Rightarrow> v)"
| "py_get v key dflt =
     Inl (Exn AttributeError
       (squote (type_name v) @ '' object has no attribute '' @ squote ''get''))"

text \<open>
  \<open>for item in v\<close>: a list yields its elements, a dict its keys, a string its
  characters as one-character strings; anything else raises \<open>TypeError\<close>.
\<close>

fun py_iter :: "json \<Rightarrow> exn + json list" where
  "py_iter (JArr xs) = Inr xs"
| "py_iter (JObj kvs) = Inr (map (\<lambda>kv. JStr (fst kv)) kvs)"
| "py_iter (JStr s) = Inr (map (\<lambda>c. JStr [c]) s)"
| "py_iter v = Inl (Exn TypeError (squote (type_name v) @ '' object is not iterable''))"

section \<open>Data model\<close>

text \<open>
  The dataclass \<open>UserData\<close>. Its annotations are not enforced: each field holds whatever
  \<open>from_json\<close> found, \<open>None\<close> included.
\<close>

record UserData =
  id_field :: json
  name :: json
  username :: json
  email :: json
  company_name :: json
  city :: json

definition bind_exn :: "exn + 'a \<Rightarrow> ('a \<Rightarrow> exn + 'b) \<Rightarrow> exn + 'b" where
  "bind_exn r f = (case r of Inl e \<Rightarrow> Inl e | Inr x \<Rightarrow> f x)"

text \<open>The body of the \<open>try\<close> in \<open>from_json\<close>: the arguments are evaluated left to right.\<close>

definition from_json_try :: "json \<Rightarrow> exn + UserData" where
  "from_json_try data =
     bind_exn (py_get data ''id'' JNull) (\<lambda>i.
     bind_exn (py_get data ''name'' JNull) (\<lambda>n.
     bind_exn (py_get data ''username'' JNull) (\<lambda>un.
     bind_exn (py_get data ''email'' JNull) (\<lambda>em.
     bind_exn (py_get data ''company'' (JObj [])) (\<lambda>c.
     bind_exn (py_get c ''name'' (JStr ''N/A'')) (\<lambda>cn.
     bind_exn (py_get data ''address'' (JObj [])) (\<lambda>a.
     bind_exn (py_get a ''city'' (JStr ''N/A'')) (\<lambda>ct.
       Inr \<lparr>id_field = i, name = n, username = un, email = em,
            company_name = cn, city = ct\<rparr>))))))))"

definition from_json :: "json \<Rightarrow> exn + UserData" where
  "from_json data =
     (case from_json_try data of
        Inr u \<Rightarrow> Inr u
      | Inl (Exn k m) \<Rightarrow>
          if is_a k AttributeError
          then Inl (Exn ValueError (''Invalid data structure: '' @ m))
          else Inl (Exn k m))"

section \<open>Decimal numerals and time stamps\<close>

text \<open>\<open>str\<close> of a non-negative and of an arbitrary Python integer.\<close>

fun str_nat :: "nat \<Rightarrow> string" where
  "str_nat n =
     (if n < 10 then [''0123456789'' ! n]
      else str_nat (n div 10) @ [''0123456789'' ! (n mod 10)])"

declare str_nat.simps [simp del]

definition str_int :: "int \<Rightarrow> string" where
  "str_int i = (if i < 0 then CHR ''-'' # str_nat (nat (- i)) else str_nat (nat i))"

text \<open>
  What \<open>datetime.datetime.now()\<close> returns: the reading of the system clock. The two
  \<open>strftime\<close> formats of the program print each field in decimal, padded with zeros
  to its width.
\<close>

record datetime =
  year :: nat
  month :: nat
  day :: nat
  hour :: nat
  minute :: nat
  second :: nat
  microsecond :: nat

definition zero_pad :: "nat \<Rightarrow> nat \<Rightarrow> string" where
  "zero_pad w n = replicate (w - length (str_nat n)) CHR ''0'' @ str_nat n"

text \<open>\<open>strftime('%Y-%m-%d %H:%M:%S')\<close>\<close>

definition strftime_report :: "datetime \<Rightarrow> string" where
  "strftime_report t =
     zero_pad 4 (year t) @ ''-'' @ zero_pad 2 (month t) @ ''-'' @ zero_pad 2 (day t) @ '' '' @
     zero_pad 2 (hour t) @ '':'' @ zero_pad 2 (minute t) @ '':'' @ zero_pad 2 (second t)"

text \<open>\<open>strftime('%Y%m%d_%H%M%S')\<close>\<close>

definition strftime_file :: "datetime \<Rightarrow> string" where
  "strftime_file t =
     zero_pad 4 (year t) @ zero_pad 2 (month t) @ zero_pad 2 (day t) @ ''_'' @
     zero_pad 2 (hour t) @ zero_pad 2 (minute t) @ zero_pad 2 (second t)"

section \<open>API client\<close>

text \<open>
  The network and the JSON decoder are the environment of \<open>fetch_data\<close>. An
  \<open>http_outcome\<close> is what the one call of \<open>urlopen\<close> does: it raises, or it returns a
  response with a status whose \<open>read()\<close> raises or returns the body. \<open>json.loads\<close> is
  the parameter \<open>loads\<close>, which raises or returns the decoded value.
\<close>

datatype http_outcome = Urlopen_raises exn | Response int "exn + string"

text \<open>The \<open>for\<close> loop of \<open>fetch_data\<close>: \<open>users.append(UserData.from_json(item))\<close>.\<close>

fun append_from_json :: "UserData list \<Rightarrow> json list \<Rightarrow> exn + UserData list" where
  "append_from_json users [] = Inr users"
| "append_from_json users (item # items) =
     (case from_json item of
        Inl e \<Rightarrow> Inl e
      | Inr u \<Rightarrow> append_from_json (users @ [u]) items)"

text \<open>The body of the \<open>try\<close> in \<open>fetch_data\<close>.\<close>

definition fetch_data_try :: "(string \<Rightarrow> exn + json) \<Rightarrow> http_outcome \<Rightarrow> exn + UserData list" where
  "fetch_data_try loads http =
     (case http of
        Urlopen_raises e \<Rightarrow> Inl e
      | Response status rd \<Rightarrow>
          if status \<noteq> 200
          then Inl (Exn APIConnectionError (''HTTP Error: '' @ str_int status))
          else
            bind_exn rd (\<lambda>data.
            bind_exn (loads data) (\<lambda>data_list.
            bind_exn (py_iter data_list) (\<lambda>items.
              append_from_json [] items))))"

text \<open>The three \<open>except\<close> clauses, tried in the order of the source.\<close>

definition fetch_data :: "(string \<Rightarrow> exn + json) \<Rightarrow> http_outcome \<Rightarrow> exn + UserData list" where
  "fetch_data loads http =
     (case fetch_data_try loads http of
        Inr users \<Rightarrow> Inr users
      | Inl (Exn k m) \<Rightarrow>
          if is_a k URLError
          then Inl (Exn APIConnectionError (''Network Error: '' @ m))
          else if is_a k JSONDecodeError
          then Inl (Exn DataParseError (''JSON Decode Error: '' @ m))
          else Inl (Exn AppError (''Unexpected Error: '' @ m)))"

section \<open>Report generator\<close>

text \<open>
  How an f-string prints a field: \<open>str\<close> of the value. \<open>str\<close> of a list or a dict is built
  from the \<open>repr\<close> of its elements; it is the parameter \<open>str_container\<close>.
\<close>

fun py_str :: "(json \<Rightarrow> string) \<Rightarrow> json \<Rightarrow> string" where
  "py_str str_container JNull = ''None''"
| "py_str str_container (JBool b) = (if b then ''True'' else ''False'')"
| "py_str str_container (JInt i) = str_int i"
| "py_str str_container (JFloat r) = r"
| "py_str str_container (JStr s) = s"
| "py_str str_container v = str_container v"

text \<open>The format \<open>^60\<close>: the padding is split with the smaller half on the left.\<close>

definition center :: "nat \<Rightarrow> string \<Rightarrow> string" where
  "center w s =
     replicate ((w - length s) div 2) CHR '' '' @ s @
     replicate ((w - length s) - (w - length s) div 2) CHR '' ''"

text \<open>\<open>"\n".join(lines)\<close>\<close>

fun join_nl :: "string list \<Rightarrow> string" where
  "join_nl [] = []"
| "join_nl [l] = l"
| "join_nl (l # l' # ls) = l @ [CHR 0x0A] @ join_nl (l' # ls)"

text \<open>The lines one pass of the loop appends.\<close>

definition user_lines :: "(json \<Rightarrow> string) \<Rightarrow> UserData \<Rightarrow> string list" where
  "user_lines sc user =
     [''ID       : '' @ py_str sc (id_field user),
      ''Name     : '' @ py_str sc (name user),
      ''Username : '' @ py_str sc (username user),
      ''Email    : '' @ py_str sc (email user),
      ''Company  : '' @ py_str sc (company_name user),
      ''City     : '' @ py_str sc (city user),
      replicate 30 CHR ''-'']"

fun append_users :: "(json \<Rightarrow> string) \<Rightarrow> string list \<Rightarrow> UserData list \<Rightarrow> string list" where
  "append_users sc lines [] = lines"
| "append_users sc lines (user # users) = append_users sc (lines @ user_lines sc user) users"

definition header_lines :: "datetime \<Rightarrow> string list" where
  "header_lines now =
     [replicate 60 CHR ''='',
      center 60 ''PORTABLE DOC REPORT'',
      replicate 60 CHR ''='',
      ''Generated on: '' @ strftime_report now,
      replicate 60 CHR ''-'']"

text \<open>The list \<open>lines\<close> at the \<open>return\<close>; \<open>now\<close> is the clock reading of the call.\<close>

definition report_lines :: "(json \<Rightarrow> string) \<Rightarrow> datetime \<Rightarrow> UserData list \<Rightarrow> string list" where
  "report_lines sc now users =
     append_users sc (header_lines now) users @ [''Total Users: '' @ str_nat (length users)]"

definition generate_text_report :: "(json \<Rightarrow> string) \<Rightarrow> datetime \<Rightarrow> UserData list \<Rightarrow> string" where
  "generate_text_report sc now users = join_nl (report_lines sc now users)"

text \<open>
  The method as it is called. Its one argument is \<open>users\<close>; the time stamp is not an
  argument: line 102 reads the system clock. \<open>clock\<close> is the state of that clock and
  \<open>datetime_now\<close> the call \<open>datetime.datetime.now()\<close> on it, which returns a reading and
  leaves the clock in a later state. The text returned is \<open>generate_text_report\<close> above at
  the reading of this call.
\<close>

definition ReportGenerator_generate_text_report ::
  "(json \<Rightarrow> string) \<Rightarrow> ('c \<Rightarrow> datetime \<times> 'c) \<Rightarrow> UserData list \<Rightarrow> 'c \<Rightarrow> string \<times> 'c" where
  "ReportGenerator_generate_text_report sc datetime_now users clock =
     (case datetime_now clock of
        (now, clock') \<Rightarrow> (generate_text_report sc now users, clock'))"

text \<open>
  The file system is the environment of the writer: a state \<open>'fs\<close> and the four
  operations of \<open>os\<close> and \<open>open\<close> the program calls. An operation that can raise
  returns the state it leaves and the exception, if any. \<open>open_write\<close> is the \<open>with\<close>
  block of \<open>save_to_file\<close>: open for writing in UTF-8, write, close.
\<close>

record 'fs os_api =
  path_exists :: "'fs \<Rightarrow> string \<Rightarrow> bool"
  makedirs :: "'fs \<Rightarrow> string \<Rightarrow> 'fs \<times> exn option"
  path_join :: "string \<Rightarrow> string \<Rightarrow> string"
  open_write :: "'fs \<Rightarrow> string \<Rightarrow> string \<Rightarrow> 'fs \<times> exn option"

text \<open>\<open>ReportGenerator.__init__\<close>; the object it builds holds \<open>output_dir\<close> only.\<close>

definition ReportGenerator_init :: "'fs os_api \<Rightarrow> 'fs \<Rightarrow> string \<Rightarrow> 'fs \<times> exn option" where
  "ReportGenerator_init os fs output_dir =
     (if \<not> path_exists os fs output_dir
      then (case makedirs os fs output_dir of
              (fs', None) \<Rightarrow> (fs', None)
            | (fs', Some (Exn k m)) \<Rightarrow>
                if is_a k OSError then (fs', None) else (fs', Some (Exn k m)))
      else (fs, None))"

definition save_to_file :: "'fs os_api \<Rightarrow> 'fs \<Rightarrow> string \<Rightarrow> string \<Rightarrow> string \<Rightarrow> 'fs \<times> exn option" where
  "save_to_file os fs output_dir content filename =
     open_write os fs (path_join os output_dir filename) content"

section \<open>Main execution\<close>

text \<open>
  The script body: the final file system and the last line it prints. \<open>t_report\<close> and
  \<open>t_file\<close> are the two clock readings, in the renderer and for the file name.
\<close>

definition main ::
  "'fs os_api \<Rightarrow> (string \<Rightarrow> exn + json) \<Rightarrow> (json \<Rightarrow> string) \<Rightarrow> http_outcome \<Rightarrow>
   datetime \<Rightarrow> datetime \<Rightarrow> 'fs \<Rightarrow> 'fs \<times> string" where
  "main os loads sc http t_report t_file fs =
     (case fetch_data loads http of
        Inl (Exn k m) \<Rightarrow> (fs, ''Fatal Error: '' @ m)
      | Inr users \<Rightarrow>
          (case ReportGenerator_init os fs ''portable_reports'' of
             (fs1, Some (Exn k m)) \<Rightarrow> (fs1, ''Fatal Error: '' @ m)
           | (fs1, None) \<Rightarrow>
               (let report_content = generate_text_report sc t_report users;
                    filename = ''Report_'' @ strftime_file t_file @ ''.txt''
                in case save_to_file os fs1 ''portable_reports'' report_content filename of
                     (fs2, Some (Exn k m)) \<Rightarrow> (fs2, ''Fatal Error: '' @ m)
                   | (fs2, None) \<Rightarrow> (fs2, ''Done.''))))"

section \<open>Vocabulary of the properties\<close>

text \<open>Whether a decoded value is an object (a \<open>dict\<close>).\<close>

fun is_dict :: "json \<Rightarrow> bool" where
  "is_dict (JObj _) = True"
| "is_dict _ = False"

text \<open>\<open>data.get(key, {})\<close> on a dict with the items \<open>kvs\<close>.\<close>

definition nested :: "(string \<times> json) list \<Rightarrow> string \<Rightarrow> json" where
  "nested kvs key = (case map_of kvs key of None \<Rightarrow> JObj [] | Some v \<Rightarrow> v)"

text \<open>The lines of a text: \<open>text.split("\n")\<close>.\<close>

fun split_nl :: "string \<Rightarrow> string list" where
  "split_nl [] = [[]]"
| "split_nl (c # cs) =
     (if c = CHR 0x0A then [] # split_nl cs
      else (case split_nl cs of [] \<Rightarrow> [[c]] | l # ls \<Rightarrow> (c # l) # ls))"

definition single_line :: "string \<Rightarrow> bool" where
  "single_line s = (CHR 0x0A \<notin> set s)"

text \<open>No field of the record prints with a line break in it.\<close>

definition single_line_user :: "(json \<Rightarrow> string) \<Rightarrow> UserData \<Rightarrow> bool" where
  "single_line_user sc u =
     list_all (\<lambda>v. single_line (py_str sc v))
       [id_field u, name u, username u, email u, company_name u, city u]"

text \<open>
  A small file system to run the writer on: directories and files by their path strings,
  and a flag that makes every creation of a directory fail for lack of permission.
\<close>

record simple_fs =
  dirs :: "string list"
  files :: "(string \<times> string) list"
  locked :: bool

definition simple_os :: "simple_fs os_api" where
  "simple_os =
     \<lparr>path_exists = (\<lambda>fs p. p \<in> set (dirs fs) \<or> p \<in> set (map fst (files fs))),
      makedirs = (\<lambda>fs p.
        if locked fs then (fs, Some (Exn PermissionError ''[Errno 13] Permission denied''))
        else (fs\<lparr>dirs := p # dirs fs\<rparr>, None)),
      path_join = (\<lambda>a b. a @ ''/'' @ b),
      open_write = (\<lambda>fs p c.
        if list_ex (\<lambda>d. take (length d + 1) p = d @ ''/'') (dirs fs)
        then (fs\<lparr>files := (p, c) # files fs\<rparr>, None)
        else (fs, Some (Exn FileNotFoundError ''[Errno 2] No such file or directory'')))\<rparr>"

text \<open>
  The number a string of decimal digits denotes, to read the fields of a formatted time
  stamp back.
\<close>

definition digit_value :: "char \<Rightarrow> nat" where
  "digit_value c = of_char c - 48"

definition decimal_value :: "string \<Rightarrow> nat" where
  "decimal_value s = foldl (\<lambda>a c. 10 * a + digit_value c) 0 s"

text \<open>
  The readings a running system clock gives: a four-digit year and the calendar and
  clock ranges of \<open>datetime\<close>.
\<close>

definition reading_in_range :: "datetime \<Rightarrow> bool" where
  "reading_in_range t \<longleftrightarrow>
     1000 \<le> year t \<and> year t \<le> 9999 \<and> 1 \<le> month t \<and> month t \<le> 12 \<and>
     1 \<le> day t \<and> day t \<le> 31 \<and> hour t < 24 \<and> minute t < 60 \<and> second t < 60"

text \<open>
  A small clock to run the renderer on: the readings it will give, in order. Each call
  of \<open>simple_now\<close> returns the next one.
\<close>

fun simple_now :: "datetime list \<Rightarrow> datetime \<times> datetime list" where
  "simple_now [] =
     (\<lparr>year = 1970, month = 1, day = 1, hour = 0, minute = 0, second = 0, microsecond = 0\<rparr>, [])"
| "simple_now (t # ts) = (t, ts)"

section \<open>Exception classes\<close>

lemma is_a_AttributeError: "is_a k AttributeError \<longleftrightarrow> k = AttributeError"
  by (cases k) (simp_all add: is_a_def)

lemma is_a_JSONDecodeError: "is_a k JSONDecodeError \<longleftrightarrow> k = JSONDecodeError"
  by (cases k) (simp_all add: is_a_def)

lemma is_a_URLError: "is_a k URLError \<longleftrightarrow> k = URLError \<or> k = HTTPError"
  by (cases k) (simp_all add: is_a_def)

section \<open>The record mapper\<close>

lemma py_get_not_dict:
  "\<not> is_dict v \<Longrightarrow> py_get v key d =
     Inl (Exn AttributeError (squote (type_name v) @ '' object has no attribute '' @ squote ''get''))"
  by (cases v) simp_all

lemma from_json_not_dict:
  "\<not> is_dict data \<Longrightarrow> from_json data =
     Inl (Exn ValueError (''Invalid data structure: '' @ squote (type_name data) @
            '' object has no attribute '' @ squote ''get''))"
  by (simp add: from_json_def from_json_try_def bind_exn_def py_get_not_dict is_a_AttributeError)

text \<open>What \<open>from_json\<close> does on an object, case by case.\<close>

lemma from_json_dict:
  "from_json (JObj kvs) =
     (if \<not> is_dict (nested kvs ''company'') then
        Inl (Exn ValueError (''Invalid data structure: '' @
            squote (type_name (nested kvs ''company'')) @
            '' object has no attribute '' @ squote ''get''))
      else if \<not> is_dict (nested kvs ''address'') then
        Inl (Exn ValueError (''Invalid data structure: '' @
            squote (type_name (nested kvs ''address'')) @
            '' object has no attribute '' @ squote ''get''))
      else Inr \<lparr>id_field = (case map_of kvs ''id'' of None \<Rightarrow> JNull | Some v \<Rightarrow> v),
                name = (case map_of kvs ''name'' of None \<Rightarrow> JNull | Some v \<Rightarrow> v),
                username = (case map_of kvs ''username'' of None \<Rightarrow> JNull | Some v \<Rightarrow> v),
                email = (case map_of kvs ''email'' of None \<Rightarrow> JNull | Some v \<Rightarrow> v),
                company_name =
                  (case nested kvs ''company'' of
                     JObj cs \<Rightarrow> (case map_of cs ''name'' of None \<Rightarrow> JStr ''N/A'' | Some v \<Rightarrow> v)
                   | _ \<Rightarrow> JNull),
                city =
                  (case nested kvs ''address'' of
                     JObj cs \<Rightarrow> (case map_of cs ''city'' of None \<Rightarrow> JStr ''N/A'' | Some v \<Rightarrow> v)
                   | _ \<Rightarrow> JNull)\<rparr>)"
  by (cases "nested kvs ''company''"; cases "nested kvs ''address''")
     (simp_all add: from_json_def from_json_try_def bind_exn_def nested_def is_a_AttributeError)

lemma from_json_error_class: "from_json data = Inl (Exn k m) \<Longrightarrow> k = ValueError"
proof (cases data)
  case (JObj kvs)
  assume "from_json data = Inl (Exn k m)"
  with JObj show ?thesis by (simp add: from_json_dict split: if_splits)
qed (simp_all add: from_json_not_dict)

text \<open>
  C3, as the code has it. On an object for which the mapper returns a record: when
  \<open>company\<close> is absent, or is an object without \<open>name\<close>, the record's \<open>company_name\<close> is
  \<open>"N/A"\<close>; when \<open>address\<close> is absent, or is an object without \<open>city\<close>, its \<open>city\<close> is
  \<open>"N/A"\<close>. When \<open>company\<close> or \<open>address\<close> is present and is not an object, the mapper
  returns no record: it raises \<open>ValueError\<close>. It returns a record whenever each of the
  two is absent or an object.
\<close>

theorem from_json_sentinel:
  "(from_json (JObj kvs) = Inr u \<longrightarrow>
      ((map_of kvs ''company'' = None \<or>
        (\<exists>cs. map_of kvs ''company'' = Some (JObj cs) \<and> map_of cs ''name'' = None))
         \<longrightarrow> company_name u = JStr ''N/A'') \<and>
      ((map_of kvs ''address'' = None \<or>
        (\<exists>cs. map_of kvs ''address'' = Some (JObj cs) \<and> map_of cs ''city'' = None))
         \<longrightarrow> city u = JStr ''N/A''))
   \<and> ((\<exists>v. (map_of kvs ''company'' = Some v \<or> map_of kvs ''address'' = Some v) \<and> \<not> is_dict v)
         \<longrightarrow> (\<exists>m. from_json (JObj kvs) = Inl (Exn ValueError m)))
   \<and> (is_dict (nested kvs ''company'') \<and> is_dict (nested kvs ''address'')
         \<longrightarrow> (\<exists>u. from_json (JObj kvs) = Inr u))"
  by (auto simp add: from_json_dict nested_def split: if_splits)

theorem from_json_sentinel_witness:
  "from_json (JObj [(''id'', JInt 7), (''address'', JObj [(''street'', JStr ''Main'')])]) =
     Inr \<lparr>id_field = JInt 7, name = JNull, username = JNull, email = JNull,
          company_name = JStr ''N/A'', city = JStr ''N/A''\<rparr>
   \<and> (\<exists>m. from_json (JObj [(''company'', JInt 3)]) = Inl (Exn ValueError m))"
  using from_json_sentinel
    [of "[(''id'', JInt 7), (''address'', JObj [(''street'', JStr ''Main'')])]"
        "\<lparr>id_field = JInt 7, name = JNull, username = JNull, email = JNull,
          company_name = JStr ''N/A'', city = JStr ''N/A''\<rparr>"]
    from_json_sentinel [of "[(''company'', JInt 3)]"]
  by (simp add: from_json_dict nested_def)

text \<open>A \<open>company\<close> that is a string: the mapper raises, no record carries \<open>"N/A"\<close>.\<close>

theorem from_json_sentinel_counterexample:
  "from_json (JObj [(''id'', JInt 1), (''company'', JStr ''Acme'')]) =
     Inl (Exn ValueError (''Invalid data structure: '' @ squote ''str'' @
            '' object has no attribute '' @ squote ''get''))"
  by (simp add: from_json_dict nested_def)

text \<open>
  C5, as the code has it. The mapper fails exactly when the input is not an object, or
  is an object whose \<open>company\<close> or \<open>address\<close> is present and not an object; what it raises
  is a \<open>ValueError\<close>. On an object for which it returns a record, each of \<open>id\<close>, \<open>name\<close>,
  \<open>username\<close> and \<open>email\<close> is the value found, or \<open>None\<close> when the key is absent.
\<close>

theorem from_json_rejects:
  "((\<exists>e. from_json data = Inl e) \<longleftrightarrow>
      (\<not> is_dict data \<or>
       (\<exists>kvs. data = JObj kvs \<and>
          (\<not> is_dict (nested kvs ''company'') \<or> \<not> is_dict (nested kvs ''address'')))))
   \<and> (from_json data = Inl (Exn k m) \<longrightarrow> k = ValueError)
   \<and> (from_json (JObj kvs) = Inr u \<longrightarrow>
        id_field u = (case map_of kvs ''id'' of None \<Rightarrow> JNull | Some v \<Rightarrow> v) \<and>
        name u = (case map_of kvs ''name'' of None \<Rightarrow> JNull | Some v \<Rightarrow> v) \<and>
        username u = (case map_of kvs ''username'' of None \<Rightarrow> JNull | Some v \<Rightarrow> v) \<and>
        email u = (case map_of kvs ''email'' of None \<Rightarrow> JNull | Some v \<Rightarrow> v))"
proof (intro conjI)
  show "(\<exists>e. from_json data = Inl e) \<longleftrightarrow>
      (\<not> is_dict data \<or>
       (\<exists>kvs. data = JObj kvs \<and>
          (\<not> is_dict (nested kvs ''company'') \<or> \<not> is_dict (nested kvs ''address''))))"
    by (cases data) (simp_all add: from_json_not_dict from_json_dict)
  show "from_json data = Inl (Exn k m) \<longrightarrow> k = ValueError"
    using from_json_error_class by blast
  show "from_json (JObj kvs) = Inr u \<longrightarrow>
        id_field u = (case map_of kvs ''id'' of None \<Rightarrow> JNull | Some v \<Rightarrow> v) \<and>
        name u = (case map_of kvs ''name'' of None \<Rightarrow> JNull | Some v \<Rightarrow> v) \<and>
        username u = (case map_of kvs ''username'' of None \<Rightarrow> JNull | Some v \<Rightarrow> v) \<and>
        email u = (case map_of kvs ''email'' of None \<Rightarrow> JNull | Some v \<Rightarrow> v)"
    by (auto simp add: from_json_dict split: if_splits)
qed

theorem from_json_rejects_witness:
  "(\<exists>e. from_json (JInt 5) = Inl e)
   \<and> from_json (JObj [(''name'', JStr ''Bret'')]) =
       Inr \<lparr>id_field = JNull, name = JStr ''Bret'', username = JNull, email = JNull,
            company_name = JStr ''N/A'', city = JStr ''N/A''\<rparr>"
  using from_json_rejects [of "JInt 5"]
    from_json_rejects
      [of _ _ _ "[(''name'', JStr ''Bret'')]"
          "\<lparr>id_field = JNull, name = JStr ''Bret'', username = JNull, email = JNull,
            company_name = JStr ''N/A'', city = JStr ''N/A''\<rparr>"]
  by (simp add: from_json_dict nested_def)

text \<open>An object whose \<open>address\<close> is \<open>null\<close>: the input is an object, and the mapper fails.\<close>

theorem from_json_rejects_counterexample:
  "from_json (JObj [(''id'', JInt 1), (''name'', JStr ''Bret''), (''address'', JNull)]) =
     Inl (Exn ValueError (''Invalid data structure: '' @ squote ''NoneType'' @
            '' object has no attribute '' @ squote ''get''))"
  by (simp add: from_json_dict nested_def)

section \<open>The fetch client\<close>

lemma append_from_json_ok:
  "\<forall>x\<in>set xs. \<exists>u. from_json x = Inr u \<Longrightarrow>
   \<exists>us. append_from_json acc xs = Inr (acc @ us) \<and> length us = length xs \<and>
        (\<forall>i<length xs. from_json (xs ! i) = Inr (us ! i))"
proof (induction xs arbitrary: acc)
  case Nil
  then show ?case by simp
next
  case (Cons x xs)
  then obtain u where u: "from_json x = Inr u" by auto
  from Cons obtain us where us: "append_from_json (acc @ [u]) xs = Inr ((acc @ [u]) @ us)"
    "length us = length xs" "\<forall>i<length xs. from_json (xs ! i) = Inr (us ! i)"
    by (metis list.set_intros(2))
  have "\<forall>i<length (x # xs). from_json ((x # xs) ! i) = Inr ((u # us) ! i)"
    using u us(3) by (auto simp add: nth_Cons split: nat.splits)
  with u us show ?case
    by (intro exI[of _ "u # us"]) simp
qed

lemma append_from_json_error_class:
  "append_from_json acc xs = Inl (Exn k m) \<Longrightarrow> k = ValueError"
  by (induction xs arbitrary: acc) (auto split: sum.splits dest: from_json_error_class)

lemma fetch_data_try_200:
  "fetch_data_try loads (Response 200 (Inr body)) =
     bind_exn (loads body) (\<lambda>v. bind_exn (py_iter v) (append_from_json []))"
  by (simp add: fetch_data_try_def bind_exn_def)

lemma py_iter_error_class: "py_iter v = Inl (Exn k m) \<Longrightarrow> k = TypeError"
  by (cases v) auto

lemma decoded_error_class:
  "bind_exn (py_iter v) (append_from_json []) = Inl (Exn k m) \<Longrightarrow> k = TypeError \<or> k = ValueError"
  by (auto simp add: bind_exn_def split: sum.splits
           dest: py_iter_error_class append_from_json_error_class)

text \<open>
  C6. When the response has status 200, its body decodes to an array, and every element
  of the array maps to a record, \<open>fetch_data\<close> returns a list of records as long as the
  array whose i-th record is the mapping of the i-th element.
\<close>

theorem fetch_data_order_count:
  assumes "loads body = Inr (JArr xs)"
    and "\<forall>x\<in>set xs. \<exists>u. from_json x = Inr u"
  shows "\<exists>us. fetch_data loads (Response 200 (Inr body)) = Inr us \<and> length us = length xs \<and>
           (\<forall>i<length xs. from_json (xs ! i) = Inr (us ! i))"
proof -
  from append_from_json_ok[OF assms(2), of "[]"] obtain us where
    "append_from_json [] xs = Inr us" "length us = length xs"
    "\<forall>i<length xs. from_json (xs ! i) = Inr (us ! i)" by auto
  with assms(1) show ?thesis
    by (simp add: fetch_data_def fetch_data_try_def bind_exn_def)
qed

theorem fetch_data_order_count_witness:
  "\<exists>us. fetch_data
          (\<lambda>b. Inr (JArr [JObj [(''id'', JInt 1)],
                           JObj [(''id'', JInt 2), (''company'', JObj [(''name'', JStr ''Acme'')])]]))
          (Response 200 (Inr ''two users'')) = Inr us
        \<and> length us = 2
        \<and> from_json (JObj [(''id'', JInt 1)]) = Inr (us ! 0)
        \<and> from_json (JObj [(''id'', JInt 2), (''company'', JObj [(''name'', JStr ''Acme'')])]) =
            Inr (us ! 1)"
proof -
  let ?xs = "[JObj [(''id'', JInt 1)],
              JObj [(''id'', JInt 2), (''company'', JObj [(''name'', JStr ''Acme'')])]]"
  let ?loads = "\<lambda>b::string. (Inr (JArr ?xs) :: exn + json)"
  let ?body = "''two users''"
  have h2: "\<forall>x\<in>set ?xs. \<exists>u. from_json x = Inr u"
    by (simp add: from_json_dict nested_def)
  from fetch_data_order_count [of ?loads ?body ?xs, OF refl h2] obtain us where
    us: "fetch_data ?loads (Response 200 (Inr ?body)) = Inr us" "length us = length ?xs"
      "\<forall>i<length ?xs. from_json (?xs ! i) = Inr (us ! i)" by blast
  from us(3) have "0 < length ?xs \<longrightarrow> from_json (?xs ! 0) = Inr (us ! 0)"
    and "1 < length ?xs \<longrightarrow> from_json (?xs ! 1) = Inr (us ! 1)"
    by blast+
  then have "from_json (?xs ! 0) = Inr (us ! 0)" "from_json (?xs ! 1) = Inr (us ! 1)"
    by simp_all
  with us(1,2) show ?thesis by (intro exI[of _ us]) simp
qed

text \<open>
  C1, what the code does. When \<open>urlopen\<close> returns a response whose status is not 200,
  the \<open>APIConnectionError\<close> raised in the \<open>try\<close> is caught by the last clause,
  \<open>except Exception\<close>, of the same \<open>try\<close>: \<open>fetch_data\<close> raises the base class \<open>AppError\<close>,
  which is not an \<open>APIConnectionError\<close>. Its message still carries the status, and the
  script leaves the file system as it was.
\<close>

theorem fetch_data_non_200:
  "status \<noteq> 200 \<Longrightarrow>
     fetch_data loads (Response status rd) =
       Inl (Exn AppError (''Unexpected Error: HTTP Error: '' @ str_int status)) \<and>
     \<not> is_a AppError APIConnectionError \<and>
     main os loads sc (Response status rd) t_report t_file fs =
       (fs, ''Fatal Error: Unexpected Error: HTTP Error: '' @ str_int status)"
  by (simp add: main_def fetch_data_def fetch_data_try_def is_a_def)

theorem fetch_data_non_200_witness:
  "fetch_data (\<lambda>b. Inr (JArr [])) (Response 204 (Inr [])) =
     Inl (Exn AppError ''Unexpected Error: HTTP Error: 204'')
   \<and> main simple_os (\<lambda>b. Inr (JArr [])) (\<lambda>v. []) (Response 204 (Inr []))
       \<lparr>year = 2024, month = 5, day = 17, hour = 9, minute = 30, second = 0, microsecond = 0\<rparr>
       \<lparr>year = 2024, month = 5, day = 17, hour = 9, minute = 30, second = 1, microsecond = 0\<rparr>
       \<lparr>dirs = [], files = [], locked = False\<rparr> =
     (\<lparr>dirs = [], files = [], locked = False\<rparr>,
      ''Fatal Error: Unexpected Error: HTTP Error: 204'')"
proof -
  have h: "(204::int) \<noteq> 200" by simp
  have s: "str_int 204 = ''204''"
    by (simp add: str_int_def str_nat.simps)
  show ?thesis
    using fetch_data_non_200 [OF h, of "\<lambda>b. Inr (JArr [])" "Inr []" simple_os "\<lambda>v. []"
        "\<lparr>year = 2024, month = 5, day = 17, hour = 9, minute = 30, second = 0, microsecond = 0\<rparr>"
        "\<lparr>year = 2024, month = 5, day = 17, hour = 9, minute = 30, second = 1, microsecond = 0\<rparr>"
        "\<lparr>dirs = [], files = [], locked = False\<rparr>"]
    by (simp add: s)
qed

text \<open>
  C4, as the code has it. On a response with status 200 whose body was read,
  \<open>fetch_data\<close> raises \<open>DataParseError\<close> exactly when \<open>json.loads\<close> raises
  \<open>JSONDecodeError\<close> on the body. When the body decodes, whatever its shape, a failure
  of \<open>fetch_data\<close> is an \<open>AppError\<close>, never a \<open>DataParseError\<close>. When \<open>json.loads\<close> rejects
  the body \<open>not json\<close>, \<open>fetch_data\<close> raises \<open>DataParseError\<close> and the script leaves the
  file system as it was.
\<close>

theorem fetch_data_parse_error:
  "((\<exists>m. fetch_data loads (Response 200 (Inr body)) = Inl (Exn DataParseError m)) \<longleftrightarrow>
      (\<exists>m. loads body = Inl (Exn JSONDecodeError m)))
   \<and> (loads body = Inr v \<and> fetch_data loads (Response 200 (Inr body)) = Inl (Exn k m')
        \<longrightarrow> k = AppError)
   \<and> (loads ''not json'' = Inl (Exn JSONDecodeError m) \<longrightarrow>
        fetch_data loads (Response 200 (Inr ''not json'')) =
          Inl (Exn DataParseError (''JSON Decode Error: '' @ m)) \<and>
        main os loads sc (Response 200 (Inr ''not json'')) t_report t_file fs =
          (fs, ''Fatal Error: JSON Decode Error: '' @ m))"
proof (intro conjI)
  show "(\<exists>m. fetch_data loads (Response 200 (Inr body)) = Inl (Exn DataParseError m)) \<longleftrightarrow>
      (\<exists>m. loads body = Inl (Exn JSONDecodeError m))"
  proof (cases "loads body")
    case (Inl e)
    then show ?thesis
      by (cases e) (auto simp add: fetch_data_def fetch_data_try_200 bind_exn_def
                      is_a_JSONDecodeError is_a_URLError)
  next
    case (Inr v)
    show ?thesis
    proof (cases "bind_exn (py_iter v) (append_from_json [])")
      case (Inl e)
      obtain k m where e: "e = Exn k m" by (cases e)
      with Inl have "k = TypeError \<or> k = ValueError" using decoded_error_class by blast
      with Inl Inr e show ?thesis
        by (auto simp add: fetch_data_def fetch_data_try_200 bind_exn_def is_a_def)
    next
      case (Inr us)
      with \<open>loads body = Inr v\<close> show ?thesis
        by (simp add: fetch_data_def fetch_data_try_200 bind_exn_def)
    qed
  qed
  show "loads body = Inr v \<and> fetch_data loads (Response 200 (Inr body)) = Inl (Exn k m')
        \<longrightarrow> k = AppError"
  proof
    assume a: "loads body = Inr v \<and> fetch_data loads (Response 200 (Inr body)) = Inl (Exn k m')"
    then have l: "loads body = Inr v"
      and f: "fetch_data loads (Response 200 (Inr body)) = Inl (Exn k m')" by simp_all
    show "k = AppError"
    proof (cases "bind_exn (py_iter v) (append_from_json [])")
      case (Inl e)
      obtain k' m where e: "e = Exn k' m" by (cases e)
      with Inl have "k' = TypeError \<or> k' = ValueError" using decoded_error_class by blast
      with Inl l f e show ?thesis
        by (auto simp add: fetch_data_def fetch_data_try_200 bind_exn_def is_a_def)
    next
      case (Inr us)
      with l f show ?thesis
        by (simp add: fetch_data_def fetch_data_try_200 bind_exn_def)
    qed
  qed
  show "loads ''not json'' = Inl (Exn JSONDecodeError m) \<longrightarrow>
        fetch_data loads (Response 200 (Inr ''not json'')) =
          Inl (Exn DataParseError (''JSON Decode Error: '' @ m)) \<and>
        main os loads sc (Response 200 (Inr ''not json'')) t_report t_file fs =
          (fs, ''Fatal Error: JSON Decode Error: '' @ m)"
    by (simp add: main_def fetch_data_def fetch_data_try_200 bind_exn_def is_a_def)
qed

theorem fetch_data_parse_error_witness:
  "fetch_data (\<lambda>b. Inl (Exn JSONDecodeError ''Expecting value: line 1 column 1 (char 0)''))
     (Response 200 (Inr ''not json'')) =
     Inl (Exn DataParseError ''JSON Decode Error: Expecting value: line 1 column 1 (char 0)'')
   \<and> main simple_os
       (\<lambda>b. Inl (Exn JSONDecodeError ''Expecting value: line 1 column 1 (char 0)''))
       (\<lambda>v. []) (Response 200 (Inr ''not json''))
       \<lparr>year = 2024, month = 5, day = 17, hour = 9, minute = 30, second = 0, microsecond = 0\<rparr>
       \<lparr>year = 2024, month = 5, day = 17, hour = 9, minute = 30, second = 1, microsecond = 0\<rparr>
       \<lparr>dirs = [], files = [], locked = False\<rparr> =
     (\<lparr>dirs = [], files = [], locked = False\<rparr>,
      ''Fatal Error: JSON Decode Error: Expecting value: line 1 column 1 (char 0)'')"
  using fetch_data_parse_error
    [of "\<lambda>b. Inl (Exn JSONDecodeError ''Expecting value: line 1 column 1 (char 0)'')"
        "''not json''" JNull AppError "[]" "''Expecting value: line 1 column 1 (char 0)''"
        simple_os "\<lambda>v. []"
        "\<lparr>year = 2024, month = 5, day = 17, hour = 9, minute = 30, second = 0, microsecond = 0\<rparr>"
        "\<lparr>year = 2024, month = 5, day = 17, hour = 9, minute = 30, second = 1, microsecond = 0\<rparr>"
        "\<lparr>dirs = [], files = [], locked = False\<rparr>"]
  by simp

text \<open>
  The body \<open>[1]\<close> is valid JSON and not an array of objects: \<open>fetch_data\<close> raises
  \<open>AppError\<close>, not \<open>DataParseError\<close>.
\<close>

theorem fetch_data_parse_error_counterexample:
  "fetch_data (\<lambda>b. Inr (JArr [JInt 1])) (Response 200 (Inr ''[1]'')) =
     Inl (Exn AppError (''Unexpected Error: Invalid data structure: '' @ squote ''int'' @
            '' object has no attribute '' @ squote ''get''))"
  by (simp add: fetch_data_def fetch_data_try_200 bind_exn_def from_json_not_dict is_a_def)

section \<open>The report renderer\<close>

lemma split_nl_nonempty: "split_nl s \<noteq> []"
  by (induction s) (auto split: list.splits)

lemma split_nl_single: "single_line l \<Longrightarrow> split_nl l = [l]"
  by (induction l) (auto simp add: single_line_def)

lemma split_nl_append:
  "single_line l \<Longrightarrow> split_nl (l @ CHR 0x0A # r) = l # split_nl r"
  by (induction l) (auto simp add: single_line_def)

lemma split_join_prefix:
  "list_all single_line h \<Longrightarrow> rest \<noteq> [] \<Longrightarrow>
   split_nl (join_nl (h @ rest)) = h @ split_nl (join_nl rest)"
proof (induction h)
  case Nil
  then show ?case by simp
next
  case (Cons l h)
  then obtain x xs where hr: "h @ rest = x # xs" by (cases "h @ rest") auto
  from Cons have "split_nl (join_nl (h @ rest)) = h @ split_nl (join_nl rest)" by simp
  with Cons.prems hr show ?case by (simp add: split_nl_append)
qed

lemma split_join:
  "list_all single_line ls \<Longrightarrow> ls \<noteq> [] \<Longrightarrow> split_nl (join_nl ls) = ls"
proof -
  assume a: "list_all single_line ls" "ls \<noteq> []"
  then have "list_all single_line (butlast ls)" "single_line (last ls)"
    by (auto simp add: list_all_iff dest: in_set_butlastD)
  with split_join_prefix[of "butlast ls" "[last ls]"] a(2) show ?thesis
    by (simp add: split_nl_single)
qed

lemma append_users_eq: "append_users sc lines us = lines @ concat (map (user_lines sc) us)"
  by (induction us arbitrary: lines) simp_all

lemma length_user_lines: "length (user_lines sc u) = 7"
  by (simp add: user_lines_def)

lemma length_concat_user_lines: "length (concat (map (user_lines sc) us)) = 7 * length us"
  by (induction us) (simp_all add: length_user_lines)

lemma str_nat_digits: "set (str_nat n) \<subseteq> set ''0123456789''"
proof (induction n rule: str_nat.induct)
  case (1 n)
  have d: "\<And>k. k < 10 \<Longrightarrow> ''0123456789'' ! k \<in> set ''0123456789''"
    by (rule nth_mem) simp
  show ?case
  proof (cases "n < 10")
    case True
    with d[of n] show ?thesis by (subst str_nat.simps) simp
  next
    case False
    with 1 d[of "n mod 10"] show ?thesis by (subst str_nat.simps) auto
  qed
qed

lemma str_nat_nonempty: "str_nat n \<noteq> []"
  by (subst str_nat.simps) simp

lemma single_line_str_nat: "single_line (str_nat n)"
  using str_nat_digits[of n] by (auto simp add: single_line_def)

lemma single_line_append: "single_line (a @ b) \<longleftrightarrow> single_line a \<and> single_line b"
  by (auto simp add: single_line_def)

lemma single_line_Nil: "single_line []"
  by (simp add: single_line_def)

lemma single_line_Cons: "single_line (c # s) \<longleftrightarrow> c \<noteq> CHR 0x0A \<and> single_line s"
  by (auto simp add: single_line_def)

lemma single_line_replicate: "c \<noteq> CHR 0x0A \<Longrightarrow> single_line (replicate n c)"
  by (simp add: single_line_def)

lemmas single_line_simps =
  single_line_Nil single_line_Cons single_line_append single_line_replicate

lemma single_line_zero_pad: "single_line (zero_pad w n)"
  using single_line_str_nat[of n] by (auto simp add: zero_pad_def single_line_def)

lemma single_line_strftime_report: "single_line (strftime_report t)"
  by (simp add: strftime_report_def single_line_simps single_line_zero_pad)

lemma center_title: "center 60 ''PORTABLE DOC REPORT'' =
    replicate 20 CHR '' '' @ ''PORTABLE DOC REPORT'' @ replicate 21 CHR '' ''"
  by (simp add: center_def)

lemma header_single: "list_all single_line (header_lines t)"
  using single_line_strftime_report[of t]
  by (simp add: header_lines_def center_def single_line_simps)

lemma user_lines_single: "single_line_user sc u \<Longrightarrow> list_all single_line (user_lines sc u)"
  by (simp add: single_line_user_def user_lines_def single_line_simps)

lemma users_single:
  "list_all (single_line_user sc) us \<Longrightarrow> list_all single_line (concat (map (user_lines sc) us))"
  by (induction us) (simp_all add: user_lines_single)

lemma total_single: "single_line (''Total Users: '' @ str_nat n)"
  by (simp add: single_line_simps single_line_str_nat)

lemma report_lines_eq:
  "report_lines sc t us =
     header_lines t @ concat (map (user_lines sc) us) @ [''Total Users: '' @ str_nat (length us)]"
  by (simp add: report_lines_def append_users_eq)

lemma split_report:
  "list_all (single_line_user sc) us \<Longrightarrow>
   split_nl (generate_text_report sc t us) = report_lines sc t us"
  unfolding generate_text_report_def
  by (rule split_join)
     (simp_all add: report_lines_eq header_single users_single single_line_simps
        single_line_str_nat)

lemma join_nl_last: "ls \<noteq> [] \<Longrightarrow> last ls \<noteq> [] \<Longrightarrow> join_nl ls \<noteq> [] \<and> last (join_nl ls) = last (last ls)"
  by (induction ls rule: join_nl.induct) auto

lemma last_str_nat: "last (str_nat n) \<noteq> CHR 0x0A"
  using single_line_str_nat[of n] str_nat_nonempty[of n]
  by (auto simp add: single_line_def dest: last_in_set)

lemma report_no_trailing_nl:
  "generate_text_report sc t us \<noteq> [] \<and> last (generate_text_report sc t us) \<noteq> CHR 0x0A"
  using join_nl_last[of "report_lines sc t us"] last_str_nat[of "length us"] str_nat_nonempty[of "length us"]
  by (simp add: generate_text_report_def report_lines_eq)


text \<open>
  C10, as the code has it. When no field of any record prints with a line break in it,
  the lines of the report are the five header lines (a banner of 60 \<open>=\<close>, the title
  centred in 60 columns, the banner again, the \<open>Generated on:\<close> line, 60 \<open>-\<close>), then for
  each record its six labelled lines and 30 \<open>-\<close>, then \<open>Total Users: n\<close>: \<open>6 + 7 * n\<close>
  lines in all. For every list of records the text is the join of \<open>6 + 7 * n\<close> strings,
  is not empty and does not end with a line break.
\<close>

theorem report_line_structure:
  "(list_all (single_line_user sc) users \<longrightarrow>
      split_nl (generate_text_report sc now users) =
        [replicate 60 CHR ''='',
         replicate 20 CHR '' '' @ ''PORTABLE DOC REPORT'' @ replicate 21 CHR '' '',
         replicate 60 CHR ''='',
         ''Generated on: '' @ strftime_report now,
         replicate 60 CHR ''-''] @
        concat (map (\<lambda>user.
          [''ID       : '' @ py_str sc (id_field user),
           ''Name     : '' @ py_str sc (name user),
           ''Username : '' @ py_str sc (username user),
           ''Email    : '' @ py_str sc (email user),
           ''Company  : '' @ py_str sc (company_name user),
           ''City     : '' @ py_str sc (city user),
           replicate 30 CHR ''-'']) users) @
        [''Total Users: '' @ str_nat (length users)]
      \<and> length (split_nl (generate_text_report sc now users)) = 6 + 7 * length users)
   \<and> generate_text_report sc now users = join_nl (report_lines sc now users)
   \<and> length (report_lines sc now users) = 6 + 7 * length users
   \<and> generate_text_report sc now users \<noteq> []
   \<and> last (generate_text_report sc now users) \<noteq> CHR 0x0A"
proof -
  have ul: "user_lines sc = (\<lambda>user.
          [''ID       : '' @ py_str sc (id_field user),
           ''Name     : '' @ py_str sc (name user),
           ''Username : '' @ py_str sc (username user),
           ''Email    : '' @ py_str sc (email user),
           ''Company  : '' @ py_str sc (company_name user),
           ''City     : '' @ py_str sc (city user),
           replicate 30 CHR ''-''])"
    by (rule ext) (simp add: user_lines_def)
  have len: "length (report_lines sc now users) = 6 + 7 * length users"
    by (simp add: report_lines_eq length_concat_user_lines header_lines_def)
  have lines: "report_lines sc now users =
        [replicate 60 CHR ''='',
         replicate 20 CHR '' '' @ ''PORTABLE DOC REPORT'' @ replicate 21 CHR '' '',
         replicate 60 CHR ''='',
         ''Generated on: '' @ strftime_report now,
         replicate 60 CHR ''-''] @
        concat (map (user_lines sc) users) @
        [''Total Users: '' @ str_nat (length users)]"
    by (simp only: report_lines_eq header_lines_def center_title)
  show ?thesis
    using split_report[of sc users now] len lines report_no_trailing_nl[of sc now users]
    by (simp only: ul generate_text_report_def) simp
qed


theorem report_line_structure_witness:
  "length (split_nl (generate_text_report (\<lambda>v. [])
      \<lparr>year = 2024, month = 5, day = 17, hour = 9, minute = 30, second = 0, microsecond = 0\<rparr>
      [\<lparr>id_field = JInt 1, name = JStr ''Ann Lee'', username = JStr ''ann'',
        email = JNull, company_name = JStr ''N/A'', city = JStr ''N/A''\<rparr>])) = 13"
proof -
  let ?u = "\<lparr>id_field = JInt 1, name = JStr ''Ann Lee'', username = JStr ''ann'',
        email = JNull, company_name = JStr ''N/A'', city = JStr ''N/A''\<rparr>"
  have h: "list_all (single_line_user (\<lambda>v. [])) [?u]"
    by (simp add: single_line_user_def single_line_simps str_int_def single_line_str_nat)
  from report_line_structure [where sc = "\<lambda>v. []" and users = "[?u]" and now =
      "\<lparr>year = 2024, month = 5, day = 17, hour = 9, minute = 30, second = 0, microsecond = 0\<rparr>"] h
  have "length (split_nl (generate_text_report (\<lambda>v. [])
      \<lparr>year = 2024, month = 5, day = 17, hour = 9, minute = 30, second = 0, microsecond = 0\<rparr>
      [?u])) = 6 + 7 * length [?u]" by blast
  then show ?thesis by simp
qed

text \<open>
  One record whose name holds a line break: the report has 14 lines, not \<open>6 + 7 * 1\<close>.
\<close>

theorem report_line_structure_counterexample:
  "length (split_nl (generate_text_report (\<lambda>v. [])
      \<lparr>year = 2024, month = 5, day = 17, hour = 9, minute = 30, second = 0, microsecond = 0\<rparr>
      [\<lparr>id_field = JInt 1, name = JStr (''Ann'' @ [CHR 0x0A] @ ''Lee''), username = JStr ''ann'',
        email = JNull, company_name = JStr ''N/A'', city = JStr ''N/A''\<rparr>])) = 14
   \<and> 6 + 7 * length [\<lparr>id_field = JInt 1, name = JStr (''Ann'' @ [CHR 0x0A] @ ''Lee''),
        username = JStr ''ann'', email = JNull, company_name = JStr ''N/A'',
        city = JStr ''N/A''\<rparr>] = 13"
  by code_simp

text \<open>
  C8. The report of the empty list has six lines: the five header lines and the footer
  \<open>Total Users: 0\<close>, which is its last line; there is no field line in it.
\<close>

theorem empty_report:
  "split_nl (generate_text_report sc now []) =
     [replicate 60 CHR ''='',
      replicate 20 CHR '' '' @ ''PORTABLE DOC REPORT'' @ replicate 21 CHR '' '',
      replicate 60 CHR ''='',
      ''Generated on: '' @ strftime_report now,
      replicate 60 CHR ''-'',
      ''Total Users: 0'']
   \<and> last (split_nl (generate_text_report sc now [])) = ''Total Users: 0''"
proof -
  have z: "str_nat 0 = ''0''" by (simp add: str_nat.simps)
  have "split_nl (generate_text_report sc now []) = report_lines sc now []"
    by (rule split_report) simp
  then show ?thesis
    by (simp add: report_lines_eq header_lines_def center_title z)
qed

theorem empty_report_witness:
  "split_nl (generate_text_report (\<lambda>v. [])
      \<lparr>year = 2024, month = 5, day = 17, hour = 9, minute = 30, second = 0, microsecond = 0\<rparr> []) =
     [''============================================================'',
      ''                    PORTABLE DOC REPORT                     '',
      ''============================================================'',
      ''Generated on: 2024-05-17 09:30:00'',
      ''------------------------------------------------------------'',
      ''Total Users: 0'']"
proof -
  have "strftime_report
      \<lparr>year = 2024, month = 5, day = 17, hour = 9, minute = 30, second = 0, microsecond = 0\<rparr> =
      ''2024-05-17 09:30:00''"
    by code_simp
  with empty_report [where sc = "\<lambda>v. []" and now =
      "\<lparr>year = 2024, month = 5, day = 17, hour = 9, minute = 30, second = 0, microsecond = 0\<rparr>"]
  show ?thesis by (simp add: numeral_eq_Suc)
qed

text \<open>
  C7. The mapper turns the object of the scenario into the record of the scenario, and
  the report of that one record has the line \<open>Company  : Romaguera-Crona\<close>, has
  \<open>Total Users: 1\<close> as its last line and ends with that text, whatever the clock reads.
\<close>

theorem leanne_graham_scenario:
  "from_json (JObj [(''id'', JInt 1), (''name'', JStr ''Leanne Graham''),
       (''username'', JStr ''Bret''), (''email'', JStr ''[email protected]''),
       (''address'', JObj [(''city'', JStr ''Gwenborough'')]),
       (''company'', JObj [(''name'', JStr ''Romaguera-Crona'')])]) =
     Inr \<lparr>id_field = JInt 1, name = JStr ''Leanne Graham'', username = JStr ''Bret'',
          email = JStr ''[email protected]'', company_name = JStr ''Romaguera-Crona'',
          city = JStr ''Gwenborough''\<rparr>
   \<and> ''Company  : Romaguera-Crona'' \<in> set (split_nl (generate_text_report sc now
        [\<lparr>id_field = JInt 1, name = JStr ''Leanne Graham'', username = JStr ''Bret'',
          email = JStr ''[email protected]'', company_name = JStr ''Romaguera-Crona'',
          city = JStr ''Gwenborough''\<rparr>]))
   \<and> last (split_nl (generate_text_report sc now
        [\<lparr>id_field = JInt 1, name = JStr ''Leanne Graham'', username = JStr ''Bret'',
          email = JStr ''[email protected]'', company_name = JStr ''Romaguera-Crona'',
          city = JStr ''Gwenborough''\<rparr>])) = ''Total Users: 1''
   \<and> (\<exists>p. generate_text_report sc now
        [\<lparr>id_field = JInt 1, name = JStr ''Leanne Graham'', username = JStr ''Bret'',
          email = JStr ''[email protected]'', company_name = JStr ''Romaguera-Crona'',
          city = JStr ''Gwenborough''\<rparr>] = p @ ''Total Users: 1'')"
proof -
  let ?u = "\<lparr>id_field = JInt 1, name = JStr ''Leanne Graham'', username = JStr ''Bret'',
          email = JStr ''[email protected]'', company_name = JStr ''Romaguera-Crona'',
          city = JStr ''Gwenborough''\<rparr>"
  have one: "str_nat (Suc 0) = ''1''" by (simp add: str_nat.simps)
  have h: "list_all (single_line_user sc) [?u]"
    by (simp add: single_line_user_def single_line_simps str_int_def single_line_str_nat)
  have sp: "split_nl (generate_text_report sc now [?u]) = report_lines sc now [?u]"
    using h by (rule split_report)
  have m: "from_json (JObj [(''id'', JInt 1), (''name'', JStr ''Leanne Graham''),
       (''username'', JStr ''Bret''), (''email'', JStr ''[email protected]''),
       (''address'', JObj [(''city'', JStr ''Gwenborough'')]),
       (''company'', JObj [(''name'', JStr ''Romaguera-Crona'')])]) = Inr ?u"
    by (simp add: from_json_dict nested_def)
  have c: "''Company  : Romaguera-Crona'' \<in> set (report_lines sc now [?u])"
    by (simp add: report_lines_eq user_lines_def)
  have l: "last (report_lines sc now [?u]) = ''Total Users: 1''"
    by (simp add: report_lines_eq one)
  have e: "\<exists>p. generate_text_report sc now [?u] = p @ ''Total Users: 1''"
  proof -
    have "\<And>ls x. \<exists>p. join_nl (ls @ [x]) = p @ x"
    proof -
      fix ls :: "string list" and x
      show "\<exists>p. join_nl (ls @ [x]) = p @ x"
      proof (induction ls rule: join_nl.induct)
        case 1
        show ?case by simp
      next
        case (2 l)
        show ?case by simp
      next
        case (3 l l' ls)
        then obtain p where "join_nl ((l' # ls) @ [x]) = p @ x" by blast
        then show ?case by (intro exI[of _ "l @ [CHR 0x0A] @ p"]) simp
      qed
    qed
    from this[of "header_lines now @ user_lines sc ?u" "''Total Users: 1''"]
    show ?thesis by (simp add: generate_text_report_def report_lines_eq one)
  qed
  from m c l e sp show ?thesis by simp
qed

subsection \<open>The clock reading in the report\<close>

lemma digit_value_nth: "k < 10 \<Longrightarrow> digit_value (''0123456789'' ! k) = k"
proof -
  assume "k < 10"
  then have "k \<in> {0, 1, 2, 3, 4, 5, 6, 7, 8, 9}" by auto
  then show ?thesis by (auto simp add: digit_value_def)
qed

lemma decimal_value_snoc: "decimal_value (s @ [c]) = 10 * decimal_value s + digit_value c"
  by (simp add: decimal_value_def)

lemma decimal_value_str_nat: "decimal_value (str_nat n) = n"
proof (induction n rule: str_nat.induct)
  case (1 n)
  show ?case
  proof (cases "n < 10")
    case True
    then show ?thesis
      by (subst str_nat.simps) (simp add: decimal_value_def digit_value_nth)
  next
    case False
    with 1 have "decimal_value (str_nat (n div 10)) = n div 10" by simp
    with False show ?thesis
      by (subst str_nat.simps) (simp add: decimal_value_snoc digit_value_nth)
  qed
qed

lemma decimal_value_zeros: "decimal_value (replicate k CHR ''0'' @ s) = decimal_value s"
  by (induction k) (simp_all add: decimal_value_def digit_value_def)

lemma decimal_value_zero_pad: "decimal_value (zero_pad w n) = n"
  by (simp add: zero_pad_def decimal_value_zeros decimal_value_str_nat)

lemma length_str_nat: "n < 10 ^ w \<Longrightarrow> 0 < w \<Longrightarrow> length (str_nat n) \<le> w"
proof (induction n arbitrary: w rule: str_nat.induct)
  case (1 n)
  show ?case
  proof (cases "n < 10")
    case True
    with 1(3) show ?thesis by (subst str_nat.simps) simp
  next
    case False
    with 1(2) have "1 < w" by (cases "w = 1") (use 1(3) in auto)
    then obtain v where v: "w = Suc v" "0 < v" by (cases w) auto
    with 1(2) have "n div 10 < 10 ^ v" by (simp add: less_mult_imp_div_less mult.commute)
    with 1(1)[OF False this v(2)] v False show ?thesis
      by (subst str_nat.simps) simp
  qed
qed

lemma length_zero_pad: "n < 10 ^ w \<Longrightarrow> 0 < w \<Longrightarrow> length (zero_pad w n) = w"
  using length_str_nat[of n w] by (simp add: zero_pad_def)


lemma zero_pad_2: "n < 100 \<Longrightarrow> length (zero_pad 2 n) = 2"
  using length_zero_pad[of n 2] by simp

lemma zero_pad_4: "n < 10000 \<Longrightarrow> length (zero_pad 4 n) = 4"
  using length_zero_pad[of n 4] by simp

lemma strftime_report_fields:
  assumes "reading_in_range t"
  shows "length (strftime_report t) = 19"
    and "decimal_value (take 4 (strftime_report t)) = year t"
    and "decimal_value (take 2 (drop 5 (strftime_report t))) = month t"
    and "decimal_value (take 2 (drop 8 (strftime_report t))) = day t"
    and "decimal_value (take 2 (drop 11 (strftime_report t))) = hour t"
    and "decimal_value (take 2 (drop 14 (strftime_report t))) = minute t"
    and "decimal_value (take 2 (drop 17 (strftime_report t))) = second t"
    and "map ((!) (strftime_report t)) [4, 7, 10, 13, 16] = ''-- ::''"
proof -
  from assms have l: "length (zero_pad 4 (year t)) = 4" "length (zero_pad 2 (month t)) = 2"
    "length (zero_pad 2 (day t)) = 2" "length (zero_pad 2 (hour t)) = 2"
    "length (zero_pad 2 (minute t)) = 2" "length (zero_pad 2 (second t)) = 2"
    by (simp_all add: reading_in_range_def zero_pad_2 zero_pad_4)
  show "length (strftime_report t) = 19" by (simp add: strftime_report_def l)
  show "decimal_value (take 4 (strftime_report t)) = year t"
    by (simp add: strftime_report_def l decimal_value_zero_pad)
  show "decimal_value (take 2 (drop 5 (strftime_report t))) = month t"
    by (simp add: strftime_report_def l decimal_value_zero_pad)
  show "decimal_value (take 2 (drop 8 (strftime_report t))) = day t"
    by (simp add: strftime_report_def l decimal_value_zero_pad)
  show "decimal_value (take 2 (drop 11 (strftime_report t))) = hour t"
    by (simp add: strftime_report_def l decimal_value_zero_pad)
  show "decimal_value (take 2 (drop 14 (strftime_report t))) = minute t"
    by (simp add: strftime_report_def l decimal_value_zero_pad)
  show "decimal_value (take 2 (drop 17 (strftime_report t))) = second t"
    by (simp add: strftime_report_def l decimal_value_zero_pad)
  show "map ((!) (strftime_report t)) [4, 7, 10, 13, 16] = ''-- ::''"
    by (simp add: strftime_report_def l nth_append)
qed


lemma generate_text_report_line_3:
  "split_nl (generate_text_report sc t users) ! 3 = ''Generated on: '' @ strftime_report t"
proof -
  have "split_nl (join_nl (header_lines t @
          (concat (map (user_lines sc) users) @ [''Total Users: '' @ str_nat (length users)]))) =
        header_lines t @ split_nl (join_nl
          (concat (map (user_lines sc) users) @ [''Total Users: '' @ str_nat (length users)]))"
    by (rule split_join_prefix) (simp_all add: header_single)
  then show ?thesis
    by (simp add: generate_text_report_def report_lines_eq) (simp add: header_lines_def)
qed

lemma generate_text_report_eq_iff:
  "generate_text_report sc t1 users = generate_text_report sc t2 users \<longleftrightarrow>
   strftime_report t1 = strftime_report t2"
proof
  assume "generate_text_report sc t1 users = generate_text_report sc t2 users"
  then have "split_nl (generate_text_report sc t1 users) ! 3 =
      split_nl (generate_text_report sc t2 users) ! 3" by simp
  then show "strftime_report t1 = strftime_report t2"
    by (simp only: generate_text_report_line_3 same_append_eq)
next
  assume "strftime_report t1 = strftime_report t2"
  then show "generate_text_report sc t1 users = generate_text_report sc t2 users"
    by (simp add: generate_text_report_def report_lines_eq header_lines_def)
qed

lemma strftime_report_inj:
  assumes "reading_in_range t1" "reading_in_range t2"
  shows "strftime_report t1 = strftime_report t2 \<longleftrightarrow>
     year t1 = year t2 \<and> month t1 = month t2 \<and> day t1 = day t2 \<and>
     hour t1 = hour t2 \<and> minute t1 = minute t2 \<and> second t1 = second t2"
proof
  assume e: "strftime_report t1 = strftime_report t2"
  from strftime_report_fields(2-7)[OF assms(1)] strftime_report_fields(2-7)[OF assms(2)]
  show "year t1 = year t2 \<and> month t1 = month t2 \<and> day t1 = day t2 \<and>
     hour t1 = hour t2 \<and> minute t1 = minute t2 \<and> second t1 = second t2"
    unfolding e by simp
next
  assume "year t1 = year t2 \<and> month t1 = month t2 \<and> day t1 = day t2 \<and>
     hour t1 = hour t2 \<and> minute t1 = minute t2 \<and> second t1 = second t2"
  then show "strftime_report t1 = strftime_report t2" by (simp add: strftime_report_def)
qed

text \<open>
  C2, as the code has it. \<open>generate_text_report\<close> takes the records only and reads the
  system clock itself, once in each call. Its text is the lines of the report at that
  reading joined by newlines; the fourth line is \<open>Generated on:\<close> followed by the reading
  formatted, and no other line depends on the reading. So two calls on the same records
  return the same text exactly when the formatted readings of the two calls are equal.
  The formatted reading of a running clock has 19 characters, \<open>YYYY-MM-DD HH:MM:SS\<close>:
  its digit groups denote the year, month, day, hour, minute and second of the reading,
  so that two formatted readings are equal exactly when the readings agree to the second.
\<close>

theorem generate_text_report_reads_clock:
  "snd (ReportGenerator_generate_text_report sc datetime_now users clock) =
     snd (datetime_now clock)
   \<and> fst (ReportGenerator_generate_text_report sc datetime_now users clock) =
     join_nl (report_lines sc (fst (datetime_now clock)) users)
   \<and> split_nl (fst (ReportGenerator_generate_text_report sc datetime_now users clock)) ! 3 =
     ''Generated on: '' @ strftime_report (fst (datetime_now clock))
   \<and> (i \<noteq> 3 \<longrightarrow> report_lines sc t1 users ! i = report_lines sc t2 users ! i)
   \<and> (fst (ReportGenerator_generate_text_report sc datetime_now users clock1) =
      fst (ReportGenerator_generate_text_report sc datetime_now users clock2) \<longleftrightarrow>
      strftime_report (fst (datetime_now clock1)) = strftime_report (fst (datetime_now clock2)))
   \<and> (reading_in_range t \<longrightarrow>
        length (strftime_report t) = 19
        \<and> map ((!) (strftime_report t)) [4, 7, 10, 13, 16] = ''-- ::''
        \<and> map decimal_value
            [take 4 (strftime_report t), take 2 (drop 5 (strftime_report t)),
             take 2 (drop 8 (strftime_report t)), take 2 (drop 11 (strftime_report t)),
             take 2 (drop 14 (strftime_report t)), take 2 (drop 17 (strftime_report t))] =
          [year t, month t, day t, hour t, minute t, second t])
   \<and> (reading_in_range t1 \<and> reading_in_range t2 \<longrightarrow>
        (strftime_report t1 = strftime_report t2 \<longleftrightarrow>
         year t1 = year t2 \<and> month t1 = month t2 \<and> day t1 = day t2 \<and>
         hour t1 = hour t2 \<and> minute t1 = minute t2 \<and> second t1 = second t2))"
proof (intro conjI)
  show "snd (ReportGenerator_generate_text_report sc datetime_now users clock) =
     snd (datetime_now clock)"
    by (simp add: ReportGenerator_generate_text_report_def split: prod.split)
  show "fst (ReportGenerator_generate_text_report sc datetime_now users clock) =
     join_nl (report_lines sc (fst (datetime_now clock)) users)"
    by (simp add: ReportGenerator_generate_text_report_def generate_text_report_def
        split: prod.split)
  show "split_nl (fst (ReportGenerator_generate_text_report sc datetime_now users clock)) ! 3 =
     ''Generated on: '' @ strftime_report (fst (datetime_now clock))"
    by (simp add: ReportGenerator_generate_text_report_def generate_text_report_line_3
        split: prod.split)
  show "i \<noteq> 3 \<longrightarrow> report_lines sc t1 users ! i = report_lines sc t2 users ! i"
    by (simp add: report_lines_eq header_lines_def nth_Cons' nth_append)
  show "fst (ReportGenerator_generate_text_report sc datetime_now users clock1) =
      fst (ReportGenerator_generate_text_report sc datetime_now users clock2) \<longleftrightarrow>
      strftime_report (fst (datetime_now clock1)) = strftime_report (fst (datetime_now clock2))"
    by (simp add: ReportGenerator_generate_text_report_def generate_text_report_eq_iff
        split: prod.split)
  show "reading_in_range t \<longrightarrow>
        length (strftime_report t) = 19
        \<and> map ((!) (strftime_report t)) [4, 7, 10, 13, 16] = ''-- ::''
        \<and> map decimal_value
            [take 4 (strftime_report t), take 2 (drop 5 (strftime_report t)),
             take 2 (drop 8 (strftime_report t)), take 2 (drop 11 (strftime_report t)),
             take 2 (drop 14 (strftime_report t)), take 2 (drop 17 (strftime_report t))] =
          [year t, month t, day t, hour t, minute t, second t]"
    using strftime_report_fields[of t] by simp
  show "reading_in_range t1 \<and> reading_in_range t2 \<longrightarrow>
        (strftime_report t1 = strftime_report t2 \<longleftrightarrow>
         year t1 = year t2 \<and> month t1 = month t2 \<and> day t1 = day t2 \<and>
         hour t1 = hour t2 \<and> minute t1 = minute t2 \<and> second t1 = second t2)"
    using strftime_report_inj[of t1 t2] by blast
qed

theorem generate_text_report_reads_clock_witness:
  "reading_in_range
     \<lparr>year = 2024, month = 5, day = 17, hour = 9, minute = 30, second = 0, microsecond = 0\<rparr>
   \<and> reading_in_range
     \<lparr>year = 2024, month = 5, day = 17, hour = 9, minute = 30, second = 0, microsecond = 613\<rparr>
   \<and> reading_in_range
     \<lparr>year = 2024, month = 5, day = 17, hour = 9, minute = 30, second = 1, microsecond = 2\<rparr>
   \<and> fst (ReportGenerator_generate_text_report (\<lambda>v. []) simple_now
        [\<lparr>id_field = JInt 1, name = JStr ''Ann Lee'', username = JStr ''ann'',
          email = JNull, company_name = JStr ''N/A'', city = JStr ''N/A''\<rparr>]
        [\<lparr>year = 2024, month = 5, day = 17, hour = 9, minute = 30, second = 0,
           microsecond = 0\<rparr>]) =
     fst (ReportGenerator_generate_text_report (\<lambda>v. []) simple_now
        [\<lparr>id_field = JInt 1, name = JStr ''Ann Lee'', username = JStr ''ann'',
          email = JNull, company_name = JStr ''N/A'', city = JStr ''N/A''\<rparr>]
        [\<lparr>year = 2024, month = 5, day = 17, hour = 9, minute = 30, second = 0,
           microsecond = 613\<rparr>])
   \<and> strftime_report
       \<lparr>year = 2024, month = 5, day = 17, hour = 9, minute = 30, second = 0, microsecond = 613\<rparr>
     \<noteq> strftime_report
       \<lparr>year = 2024, month = 5, day = 17, hour = 9, minute = 30, second = 1, microsecond = 2\<rparr>
   \<and> length (strftime_report
       \<lparr>year = 2024, month = 5, day = 17, hour = 9, minute = 30, second = 1, microsecond = 2\<rparr>)
     = 19
   \<and> report_lines (\<lambda>v. [])
       \<lparr>year = 2024, month = 5, day = 17, hour = 9, minute = 30, second = 0, microsecond = 613\<rparr>
       [] ! 0 =
     report_lines (\<lambda>v. [])
       \<lparr>year = 2024, month = 5, day = 17, hour = 9, minute = 30, second = 1, microsecond = 2\<rparr>
       [] ! 0"
proof -
  let ?a = "\<lparr>year = 2024, month = 5, day = 17, hour = 9, minute = 30, second = 0,
             microsecond = 0\<rparr>"
  let ?b = "\<lparr>year = 2024, month = 5, day = 17, hour = 9, minute = 30, second = 0,
             microsecond = 613\<rparr>"
  let ?c = "\<lparr>year = 2024, month = 5, day = 17, hour = 9, minute = 30, second = 1,
             microsecond = 2\<rparr>"
  let ?us = "[\<lparr>id_field = JInt 1, name = JStr ''Ann Lee'', username = JStr ''ann'',
        email = JNull, company_name = JStr ''N/A'', city = JStr ''N/A''\<rparr>]"
  have r: "reading_in_range ?a" "reading_in_range ?b" "reading_in_range ?c"
    by (simp_all add: reading_in_range_def)
  have n: "fst (simple_now [?a]) = ?a" "fst (simple_now [?b]) = ?b" by simp_all
  have s: "second ?b \<noteq> second ?c" by simp
  have f: "year ?a = year ?b \<and> month ?a = month ?b \<and> day ?a = day ?b \<and>
      hour ?a = hour ?b \<and> minute ?a = minute ?b \<and> second ?a = second ?b" by simp
  have z: "(0::nat) \<noteq> 3" by simp
  note ab = generate_text_report_reads_clock [where sc = "\<lambda>v. []" and datetime_now = simple_now
      and users = ?us and clock = "[?a]" and ?clock1.0 = "[?a]" and ?clock2.0 = "[?b]"
      and ?t1.0 = ?a and ?t2.0 = ?b and t = ?a and i = 0]
  note bc = generate_text_report_reads_clock [where sc = "\<lambda>v. []" and datetime_now = simple_now
      and users = "[]" and clock = "[?b]" and ?clock1.0 = "[?b]" and ?clock2.0 = "[?c]"
      and ?t1.0 = ?b and ?t2.0 = ?c and t = ?c and i = 0]
  from ab r f have "strftime_report ?a = strftime_report ?b" by blast
  with ab have e: "fst (ReportGenerator_generate_text_report (\<lambda>v. []) simple_now ?us [?a]) =
      fst (ReportGenerator_generate_text_report (\<lambda>v. []) simple_now ?us [?b])"
    unfolding n by blast
  from bc r s have d: "strftime_report ?b \<noteq> strftime_report ?c" by blast
  from bc r have l: "length (strftime_report ?c) = 19" by blast
  from bc z have h: "report_lines (\<lambda>v. []) ?b [] ! 0 = report_lines (\<lambda>v. []) ?c [] ! 0"
    by blast
  from r e d l h show ?thesis by blast
qed

theorem generate_text_report_reads_clock_counterexample:
  "split_nl (fst (ReportGenerator_generate_text_report (\<lambda>v. []) simple_now
      [\<lparr>id_field = JInt 1, name = JStr ''Ann Lee'', username = JStr ''ann'',
        email = JNull, company_name = JStr ''N/A'', city = JStr ''N/A''\<rparr>]
      [\<lparr>year = 2024, month = 5, day = 17, hour = 9, minute = 30, second = 0,
         microsecond = 0\<rparr>,
       \<lparr>year = 2024, month = 5, day = 17, hour = 9, minute = 30, second = 1,
         microsecond = 2\<rparr>])) ! 3 = ''Generated on: 2024-05-17 09:30:00''
   \<and> snd (ReportGenerator_generate_text_report (\<lambda>v. []) simple_now
      [\<lparr>id_field = JInt 1, name = JStr ''Ann Lee'', username = JStr ''ann'',
        email = JNull, company_name = JStr ''N/A'', city = JStr ''N/A''\<rparr>]
      [\<lparr>year = 2024, month = 5, day = 17, hour = 9, minute = 30, second = 0,
         microsecond = 0\<rparr>,
       \<lparr>year = 2024, month = 5, day = 17, hour = 9, minute = 30, second = 1,
         microsecond = 2\<rparr>]) =
      [\<lparr>year = 2024, month = 5, day = 17, hour = 9, minute = 30, second = 1,
         microsecond = 2\<rparr>]
   \<and> split_nl (fst (ReportGenerator_generate_text_report (\<lambda>v. []) simple_now
      [\<lparr>id_field = JInt 1, name = JStr ''Ann Lee'', username = JStr ''ann'',
        email = JNull, company_name = JStr ''N/A'', city = JStr ''N/A''\<rparr>]
      [\<lparr>year = 2024, month = 5, day = 17, hour = 9, minute = 30, second = 1,
         microsecond = 2\<rparr>])) ! 3 = ''Generated on: 2024-05-17 09:30:01''
   \<and> fst (ReportGenerator_generate_text_report (\<lambda>v. []) simple_now
      [\<lparr>id_field = JInt 1, name = JStr ''Ann Lee'', username = JStr ''ann'',
        email = JNull, company_name = JStr ''N/A'', city = JStr ''N/A''\<rparr>]
      [\<lparr>year = 2024, month = 5, day = 17, hour = 9, minute = 30, second = 0,
         microsecond = 0\<rparr>,
       \<lparr>year = 2024, month = 5, day = 17, hour = 9, minute = 30, second = 1,
         microsecond = 2\<rparr>]) \<noteq>
     fst (ReportGenerator_generate_text_report (\<lambda>v. []) simple_now
      [\<lparr>id_field = JInt 1, name = JStr ''Ann Lee'', username = JStr ''ann'',
        email = JNull, company_name = JStr ''N/A'', city = JStr ''N/A''\<rparr>]
      [\<lparr>year = 2024, month = 5, day = 17, hour = 9, minute = 30, second = 1,
         microsecond = 2\<rparr>])"
  by code_simp

section \<open>The file writer\<close>

text \<open>
  C9, what the code does. \<open>__init__\<close> leaves an existing path alone and calls
  \<open>os.makedirs\<close> on an absent one; the \<open>except OSError: pass\<close> around that call swallows
  every \<open>OSError\<close> that \<open>os.makedirs\<close> raises, a \<open>PermissionError\<close> as well as a
  \<open>FileExistsError\<close>, so that \<open>__init__\<close> returns normally whether or not the directory
  exists afterwards. \<open>save_to_file\<close> has no handler: whatever \<open>open\<close> or \<open>write\<close> raises
  reaches the caller, and the script prints it.
\<close>

theorem ReportGenerator_init_swallows:
  "(path_exists os fs d \<longrightarrow> ReportGenerator_init os fs d = (fs, None))
   \<and> (\<not> path_exists os fs d \<and> makedirs os fs d = (fs', None) \<longrightarrow>
        ReportGenerator_init os fs d = (fs', None))
   \<and> (\<not> path_exists os fs d \<and> makedirs os fs d = (fs', Some (Exn k m)) \<and> is_a k OSError \<longrightarrow>
        ReportGenerator_init os fs d = (fs', None))
   \<and> is_a PermissionError OSError
   \<and> save_to_file os fs d content filename = open_write os fs (path_join os d filename) content"
  by (simp add: ReportGenerator_init_def save_to_file_def is_a_def)

theorem ReportGenerator_init_swallows_witness:
  "\<not> path_exists simple_os \<lparr>dirs = [], files = [], locked = True\<rparr> ''portable_reports''
   \<and> makedirs simple_os \<lparr>dirs = [], files = [], locked = True\<rparr> ''portable_reports'' =
       (\<lparr>dirs = [], files = [], locked = True\<rparr>,
        Some (Exn PermissionError ''[Errno 13] Permission denied''))
   \<and> ReportGenerator_init simple_os \<lparr>dirs = [], files = [], locked = True\<rparr>
       ''portable_reports'' = (\<lparr>dirs = [], files = [], locked = True\<rparr>, None)"
proof -
  let ?fs = "\<lparr>dirs = [], files = [], locked = True\<rparr>"
  have a: "\<not> path_exists simple_os ?fs ''portable_reports''"
    by (simp add: simple_os_def)
  have b: "makedirs simple_os ?fs ''portable_reports'' =
      (?fs, Some (Exn PermissionError ''[Errno 13] Permission denied''))"
    by (simp add: simple_os_def)
  have c: "is_a PermissionError OSError" by (simp add: is_a_def)
  from ReportGenerator_init_swallows [where os = simple_os and fs = ?fs
      and d = "''portable_reports''" and fs' = ?fs and k = PermissionError
      and m = "''[Errno 13] Permission denied''"] a b c
  have "ReportGenerator_init simple_os ?fs ''portable_reports'' = (?fs, None)" by blast
  with a b show ?thesis by simp
qed

end
